theory Spec2Isabelle
  imports Main
begin

section \<open>The hub resolver: pkg/resolution/resolver/hub/resolver.go\<close>

text \<open>
  The resolver validates the parameters of a resolution request, fills in the
  installation defaults, formats a URL, fetches it with one HTTP GET and decodes the JSON
  envelope of the answer. The embedding follows resolver.go line by line. What Go's
  standard library and the network do is the \<open>World\<close> the resolver runs in; what the
  resolver does to the world is recorded as a list of events.
\<close>

subsection \<open>Declarations of the repository that resolver.go uses\<close>

text \<open>
  Modelled from the spec: the constants \<open>ParamName\<close>, \<open>ParamVersion\<close>, \<open>ParamKind\<close>
  and \<open>ParamCatalog\<close> are declared in another file of package hub; the spec gives the
  recognised parameter names as \<open>name\<close>, \<open>version\<close>, \<open>kind\<close>, \<open>catalog\<close>.
\<close>

definition ParamName :: string where
  "ParamName = ''name''"

definition ParamVersion :: string where
  "ParamVersion = ''version''"

definition ParamKind :: string where
  "ParamKind = ''kind''"

definition ParamCatalog :: string where
  "ParamCatalog = ''catalog''"

text \<open>
  Modelled from the spec: the constants \<open>ConfigCatalog\<close> and \<open>ConfigKind\<close> are declared
  in another file of package hub; the spec speaks of the optional keys of the installation
  configuration for the default catalog and the default kind. Nothing below depends on
  how the two keys are spelled.
\<close>

definition ConfigCatalog :: string where
  "ConfigCatalog = ''default-catalog''"

definition ConfigKind :: string where
  "ConfigKind = ''default-kind''"

text \<open>
  Modelled from the spec: the types \<open>Param\<close> and \<open>ParamValue\<close> of package
  pipeline/v1beta1; the spec calls a request an ordered list of (name, string-or-typed
  value) pairs. The resolver reads \<open>Name\<close>, \<open>Value\<close> and \<open>Value.StringVal\<close> only;
  \<open>ArrayVal\<close> stands for what a typed value holds besides.
\<close>

record ParamValue =
  StringVal :: string
  ArrayVal :: "string list"

record Param =
  Name :: string
  Value :: ParamValue

text \<open>
  Modelled from the spec: the ambient context. \<open>EnableHubResolver\<close> is the feature flag
  that \<open>resolverconfig.FromContextOrDefaults(ctx).FeatureFlags.EnableHubResolver\<close>
  reads, \<open>ResolverConfig\<close> is the installation configuration that
  \<open>framework.GetResolverConfigFromContext(ctx)\<close> returns.
\<close>

record Context =
  EnableHubResolver :: bool
  ResolverConfig :: "string \<rightharpoonup> string"

text \<open>
  Modelled from the spec: \<open>pipelinev1beta1.ConfigSource\<close>, the provenance record that
  \<open>Source\<close> could return (URL, digest, entry point).
\<close>

record ConfigSource =
  URI :: string
  Digest :: "string \<rightharpoonup> string"
  EntryPoint :: string

subsection \<open>Errors\<close>

text \<open>
  The two errors of \<open>encoding/json\<close> that \<open>json.Unmarshal\<close> returns: a syntax
  error with the scanner's message, and a type mismatch with the fields \<open>Value\<close>,
  \<open>Struct\<close>, \<open>Field\<close> and \<open>Type\<close> of Go's \<open>UnmarshalTypeError\<close>.
\<close>

datatype json_error =
    SyntaxError string
  | UnmarshalTypeError string string string string

fun json_error_Error :: "json_error \<Rightarrow> string" where
  "json_error_Error (SyntaxError msg) = msg"
| "json_error_Error (UnmarshalTypeError val struct field ty) =
     (if struct \<noteq> [] \<or> field \<noteq> []
      then ''json: cannot unmarshal '' @ val @ '' into Go struct field '' @ struct @ ''.''
             @ field @ '' of type '' @ ty
      else ''json: cannot unmarshal '' @ val @ '' into Go value of type '' @ ty)"

text \<open>
  resolver.go builds every error with \<open>errors.New\<close> or \<open>fmt.Errorf\<close>; the errors differ
  by the place that returns them and by their message. One constructor for each kind of
  error of the resolver, carrying what the place puts into the message: the text itself
  for a constant message, the URL for the status check, the cause for a wrapped error
  (\<open>%w\<close>).
\<close>

datatype error =
    ConfigurationError string
  | MissingParameterError string
  | InvalidParameterError string
  | MissingDefaultError string
  | FetchError string
  | NotFoundError string
  | ReadError string
  | DecodeError json_error

text \<open>The message of an error, Go's \<open>err.Error()\<close>.\<close>

fun Error :: "error \<Rightarrow> string" where
  "Error (ConfigurationError msg) = msg"
| "Error (MissingParameterError msg) = msg"
| "Error (InvalidParameterError msg) = msg"
| "Error (MissingDefaultError msg) = msg"
| "Error (FetchError cause) = ''error requesting resource from hub: '' @ cause"
| "Error (NotFoundError url) =
     ''requested resource '' @ [CHR 0x27] @ url @ [CHR 0x27] @ '' not found on hub''"
| "Error (ReadError cause) = ''error reading response body: '' @ cause"
| "Error (DecodeError cause) =
     ''error unmarshalling json response: '' @ json_error_Error cause"

definition disabledError :: string where
  "disabledError =
     ''cannot handle resolution request, enable-hub-resolver feature flag not true''"

subsection \<open>The world: formatter, network, JSON scanner\<close>

text \<open>A JSON value; an object keeps its members in the order of the text, duplicates included.\<close>

datatype json =
    JNull
  | JBool bool
  | JNumber string
  | JString string
  | JArray "json list"
  | JObject "(string \<times> json) list"

text \<open>
  An HTTP response as the resolver sees it: the status code and what \<open>io.ReadAll\<close> gets
  from the body, the bytes or the message of a read error.
\<close>

record Response =
  StatusCode :: int
  Body :: "string + string"

definition StatusOK :: int where
  "StatusOK = 200"

text \<open>
  What the resolver takes from outside: \<open>Get\<close> is \<open>http.Get\<close> (the response, or the
  message of the transport error); \<open>Scan\<close> is the scanner of \<open>encoding/json\<close> (the
  value a text denotes with its strings unquoted, or the message of the syntax error);
  \<open>SprintfOther\<close> is \<open>fmt.Sprintf\<close> on the formats that \<open>doPrintf\<close> below leaves out.
\<close>

record World =
  Get :: "string \<Rightarrow> string + Response"
  Scan :: "string \<Rightarrow> string + json"
  SprintfOther :: "string \<Rightarrow> string list \<Rightarrow> string"

text \<open>The effects of the resolver on the world, in the order they happen.\<close>

datatype event =
    HttpGet string
  | BodyReadAll
  | BodyClose

subsection \<open>fmt.Sprintf with string operands\<close>

text \<open>
  \<open>fmt.Sprintf\<close> on a format made of plain bytes, \<open>%%\<close>, \<open>%s\<close> and \<open>%v\<close>, all
  operands being strings: the bytes are copied, \<open>%%\<close> is a percent sign, \<open>%s\<close> and
  \<open>%v\<close> are the next operand as it is. A verb with no operand left prints
  \<open>%!s(MISSING)\<close>, a percent sign ending the format prints \<open>%!(NOVERB)\<close>, and operands
  left over are listed after the text as \<open>%!(EXTRA string=..., string=...)\<close>. Any other
  byte after a percent sign (flags, width, precision, argument index, other verbs) is
  outside this fragment: the result is \<open>None\<close>.
\<close>

fun extraArgs :: "string list \<Rightarrow> string" where
  "extraArgs [] = []"
| "extraArgs [a] = ''string='' @ a"
| "extraArgs (a # b # as) = ''string='' @ a @ '', '' @ extraArgs (b # as)"

definition extra :: "string list \<Rightarrow> string" where
  "extra args = (if args = [] then [] else ''%!(EXTRA '' @ extraArgs args @ '')'')"

fun doPrintf :: "string \<Rightarrow> string list \<Rightarrow> string option" where
  "doPrintf [] args = Some (extra args)"
| "doPrintf [c] args =
     (if c = CHR ''%'' then Some (''%!(NOVERB)'' @ extra args) else Some (c # extra args))"
| "doPrintf (c # v # fmt) args =
     (if c \<noteq> CHR ''%'' then map_option ((#) c) (doPrintf (v # fmt) args)
      else if v = CHR ''%'' then map_option ((#) CHR ''%'') (doPrintf fmt args)
      else if v = CHR ''s'' \<or> v = CHR ''v'' then
        (case args of
           [] \<Rightarrow> map_option ((@) (''%!'' @ [v] @ ''(MISSING)'')) (doPrintf fmt [])
         | a # as \<Rightarrow> map_option ((@) a) (doPrintf fmt as))
      else None)"

definition Sprintf :: "World \<Rightarrow> string \<Rightarrow> string list \<Rightarrow> string" where
  "Sprintf W format args =
     (case doPrintf format args of Some s \<Rightarrow> s | None \<Rightarrow> SprintfOther W format args)"

subsection \<open>json.Unmarshal into hubResponse\<close>

record dataResponse =
  YAML :: string

record hubResponse =
  Data :: dataResponse

text \<open>
  The decoder matches the key of a member against the JSON name of a field, first exactly
  and then without regard to case. For a name of ASCII letters other than k and s, such
  as \<open>data\<close> and \<open>yaml\<close>, the second comparison is bytewise with the bit \<open>0x20\<close>
  cleared on both sides.
\<close>

definition caseMask :: "char \<Rightarrow> nat" where
  "caseMask c = (let n = of_char c in if (n div 32) mod 2 = 1 then n - 32 else n)"

definition equalFold :: "string \<Rightarrow> string \<Rightarrow> bool" where
  "equalFold name key = (map caseMask name = map caseMask key)"

text \<open>The description of a JSON value in a type error.\<close>

fun valueKind :: "json \<Rightarrow> string" where
  "valueKind JNull = ''null''"
| "valueKind (JBool b) = ''bool''"
| "valueKind (JNumber n) = ''number''"
| "valueKind (JString s) = ''string''"
| "valueKind (JArray vs) = ''array''"
| "valueKind (JObject ms) = ''object''"

text \<open>
  The decoder keeps the first error it meets and goes on decoding (\<open>saveError\<close>).
\<close>

definition saveError :: "json_error \<Rightarrow> json_error option \<Rightarrow> json_error option" where
  "saveError e saved = (case saved of None \<Rightarrow> Some e | Some e0 \<Rightarrow> Some e0)"

text \<open>
  Decoding a value into the field \<open>YAML string `json:"yaml"`\<close>: a string is stored, null
  leaves the field as it is, any other value is a type error.
\<close>

fun decodeYAML :: "json \<Rightarrow> json_error option \<times> string \<Rightarrow> json_error option \<times> string" where
  "decodeYAML (JString s) (saved, cur) = (saved, s)"
| "decodeYAML JNull (saved, cur) = (saved, cur)"
| "decodeYAML v (saved, cur) =
     (saveError (UnmarshalTypeError (valueKind v) ''dataResponse'' ''data.yaml'' ''string'') saved,
      cur)"

text \<open>
  Decoding the members of an object into a \<open>dataResponse\<close>, in the order of the text: a
  member whose key matches \<open>yaml\<close> is decoded into the field, any other member is skipped.
\<close>

fun dataMembers ::
  "(string \<times> json) list \<Rightarrow> json_error option \<times> dataResponse \<Rightarrow> json_error option \<times> dataResponse"
where
  "dataMembers [] st = st"
| "dataMembers ((key, v) # ms) (saved, dr) =
     (if key = ''yaml'' \<or> equalFold ''yaml'' key
      then (case decodeYAML v (saved, YAML dr) of
              (saved', y) \<Rightarrow> dataMembers ms (saved', dr\<lparr>YAML := y\<rparr>))
      else dataMembers ms (saved, dr))"

text \<open>
  Decoding a value into the field \<open>Data dataResponse `json:"data"`\<close>: an object is
  decoded member by member, null leaves the struct as it is, any other value is a type
  error.
\<close>

fun decodeData ::
  "json \<Rightarrow> json_error option \<times> dataResponse \<Rightarrow> json_error option \<times> dataResponse"
where
  "decodeData (JObject ms) st = dataMembers ms st"
| "decodeData JNull st = st"
| "decodeData v (saved, dr) =
     (saveError (UnmarshalTypeError (valueKind v) ''hubResponse'' ''data'' ''hub.dataResponse'') saved,
      dr)"

fun hubMembers ::
  "(string \<times> json) list \<Rightarrow> json_error option \<times> hubResponse \<Rightarrow> json_error option \<times> hubResponse"
where
  "hubMembers [] st = st"
| "hubMembers ((key, v) # ms) (saved, hr) =
     (if key = ''data'' \<or> equalFold ''data'' key
      then (case decodeData v (saved, Data hr) of
              (saved', d) \<Rightarrow> hubMembers ms (saved', hr\<lparr>Data := d\<rparr>))
      else hubMembers ms (saved, hr))"

fun decodeHub ::
  "json \<Rightarrow> json_error option \<times> hubResponse \<Rightarrow> json_error option \<times> hubResponse"
where
  "decodeHub (JObject ms) st = hubMembers ms st"
| "decodeHub JNull st = st"
| "decodeHub v (saved, hr) =
     (saveError (UnmarshalTypeError (valueKind v) [] [] ''hub.hubResponse'') saved, hr)"

text \<open>
  \<open>json.Unmarshal(body, &hr)\<close>: the text is checked first (a syntax error leaves \<open>hr\<close>
  alone), then decoded; the saved error, if any, is returned.
\<close>

definition Unmarshal :: "World \<Rightarrow> string \<Rightarrow> hubResponse \<Rightarrow> json_error + hubResponse" where
  "Unmarshal W data hr =
     (case Scan W data of
        Inl msg \<Rightarrow> Inl (SyntaxError msg)
      | Inr v \<Rightarrow>
          (case decodeHub v (None, hr) of
             (None, hr') \<Rightarrow> Inr hr'
           | (Some e, hr') \<Rightarrow> Inl e))"

subsection \<open>The resolver\<close>

record Resolver =
  HubURL :: string

record ResolvedHubResource =
  Content :: string

definition isDisabled :: "Resolver \<Rightarrow> Context \<Rightarrow> bool" where
  "isDisabled r ctx = (if EnableHubResolver ctx then False else True)"

text \<open>
  \<open>ValidateParams\<close>, lines 67 to 87. The result is Go's \<open>error\<close>: \<open>None\<close> is nil.
\<close>

definition ValidateParams :: "Resolver \<Rightarrow> Context \<Rightarrow> Param list \<Rightarrow> error option" where
  "ValidateParams r ctx params =
     (if isDisabled r ctx then Some (ConfigurationError disabledError)
      else
        let paramsMap = foldl (\<lambda>m p. m(Name p \<mapsto> Value p)) Map.empty params in
        if paramsMap ParamName = None then Some (MissingParameterError ''must include name param'')
        else if paramsMap ParamVersion = None
          then Some (MissingParameterError ''must include version param'')
        else
          (case paramsMap ParamKind of
             Some kind \<Rightarrow>
               if StringVal kind \<noteq> ''task'' \<and> StringVal kind \<noteq> ''pipeline''
               then Some (InvalidParameterError ''kind param must be task or pipeline'')
               else None
           | None \<Rightarrow> None))"

text \<open>An index expression \<open>m[k]\<close> on a Go map of strings: the empty string for a missing key.\<close>

definition index :: "(string \<rightharpoonup> string) \<Rightarrow> string \<Rightarrow> string" where
  "index m k = (case m k of None \<Rightarrow> [] | Some v \<Rightarrow> v)"

text \<open>
  \<open>Resolve\<close>, lines 105 to 130: the parameters collapsed into \<open>paramsMap\<close>, the default
  catalog and the default kind filled in, the kind checked and stored. The result is the
  map that line 131 reads, or the error that \<open>Resolve\<close> returns from these lines.
\<close>

definition Resolve_paramsMap ::
  "(string \<rightharpoonup> string) \<Rightarrow> Param list \<Rightarrow> error + (string \<rightharpoonup> string)"
where
  "Resolve_paramsMap conf params =
     (let paramsMap = foldl (\<lambda>m p. m(Name p \<mapsto> StringVal (Value p))) Map.empty params in
      case (if paramsMap ParamCatalog = None
            then (case conf ConfigCatalog of
                    Some catalogString \<Rightarrow> Inr (paramsMap(ParamCatalog \<mapsto> catalogString))
                  | None \<Rightarrow>
                      Inl (MissingDefaultError
                        ''default catalog was not set during installation of the hub resolver''))
            else Inr paramsMap) of
        Inl e \<Rightarrow> Inl e
      | Inr paramsMap \<Rightarrow>
          (case (case paramsMap ParamKind of
                   Some kind \<Rightarrow> Inr kind
                 | None \<Rightarrow>
                     (case conf ConfigKind of
                        Some kindString \<Rightarrow> Inr kindString
                      | None \<Rightarrow>
                          Inl (MissingDefaultError
                            ''default resource Kind was not set during installation of the hub resolver''))) of
             Inl e \<Rightarrow> Inl e
           | Inr kind \<Rightarrow>
               if kind \<noteq> ''task'' \<and> kind \<noteq> ''pipeline''
               then Inl (InvalidParameterError ''kind param must be task or pipeline'')
               else Inr (paramsMap(ParamKind \<mapsto> kind))))"

text \<open>
  \<open>Resolve\<close>, lines 98 to 155: the result and the events. The closing of the body is
  deferred at line 140, after the check of the status code, and runs when the function
  returns from any line below.
\<close>

definition Resolve ::
  "Resolver \<Rightarrow> World \<Rightarrow> Context \<Rightarrow> Param list \<Rightarrow> (error + ResolvedHubResource) \<times> event list"
where
  "Resolve r W ctx params =
     (if isDisabled r ctx then (Inl (ConfigurationError disabledError), [])
      else
        case Resolve_paramsMap (ResolverConfig ctx) params of
          Inl e \<Rightarrow> (Inl e, [])
        | Inr paramsMap \<Rightarrow>
            let url = Sprintf W (HubURL r)
                        [index paramsMap ParamCatalog, index paramsMap ParamKind,
                         index paramsMap ParamName, index paramsMap ParamVersion] in
            (case Get W url of
               Inl err \<Rightarrow> (Inl (FetchError err), [HttpGet url])
             | Inr resp \<Rightarrow>
                 if StatusCode resp \<noteq> StatusOK then (Inl (NotFoundError url), [HttpGet url])
                 else
                   (case Body resp of
                      Inl err \<Rightarrow> (Inl (ReadError err), [HttpGet url, BodyReadAll, BodyClose])
                    | Inr body \<Rightarrow>
                        (case Unmarshal W body \<lparr>Data = \<lparr>YAML = []\<rparr>\<rparr> of
                           Inl err \<Rightarrow>
                             (Inl (DecodeError err), [HttpGet url, BodyReadAll, BodyClose])
                         | Inr hr \<Rightarrow>
                             (Inr \<lparr>Content = YAML (Data hr)\<rparr>,
                              [HttpGet url, BodyReadAll, BodyClose])))))"

text \<open>The three methods of the resolved resource; nil is \<open>None\<close>.\<close>

definition ResolvedHubResource_Data :: "ResolvedHubResource \<Rightarrow> string" where
  "ResolvedHubResource_Data rr = Content rr"

definition ResolvedHubResource_Annotations :: "ResolvedHubResource \<Rightarrow> (string \<rightharpoonup> string) option" where
  "ResolvedHubResource_Annotations rr = None"

definition ResolvedHubResource_Source :: "ResolvedHubResource \<Rightarrow> ConfigSource option" where
  "ResolvedHubResource_Source rr = None"

text \<open>
  The method set of the resolved resource: resolver.go declares three methods with the
  receiver \<open>ResolvedHubResource\<close> (lines 165, 170 and 176) and no other.
  \<open>ResolvedHubResource_call\<close> is the call of a method of the set on a resource, with
  what the call returns.
\<close>

datatype accessor =
    DataAccessor
  | AnnotationsAccessor
  | SourceAccessor

datatype returned =
    Bytes string
  | AnnotationMap "(string \<rightharpoonup> string) option"
  | SourcePointer "ConfigSource option"

fun ResolvedHubResource_call :: "ResolvedHubResource \<Rightarrow> accessor \<Rightarrow> returned" where
  "ResolvedHubResource_call rr DataAccessor = Bytes (ResolvedHubResource_Data rr)"
| "ResolvedHubResource_call rr AnnotationsAccessor =
     AnnotationMap (ResolvedHubResource_Annotations rr)"
| "ResolvedHubResource_call rr SourceAccessor = SourcePointer (ResolvedHubResource_Source rr)"

subsection \<open>What a request asks for\<close>

text \<open>
  The value a request gives to a name: parameters of the same name collapse to the last
  one. \<open>requested\<close> follows the words of the specification; the loops of the resolver
  compute it (\<open>paramsMap_requested\<close> below).
\<close>

definition requested :: "Param list \<Rightarrow> string \<Rightarrow> ParamValue option" where
  "requested params = map_of (rev (map (\<lambda>p. (Name p, Value p)) params))"

text \<open>
  The kind a resolution works with: the kind of the request if it has one, otherwise the
  default of the installation.
\<close>

definition effectiveKind :: "(string \<rightharpoonup> string) \<Rightarrow> Param list \<Rightarrow> string option" where
  "effectiveKind conf params =
     (case requested params ParamKind of
        Some v \<Rightarrow> Some (StringVal v)
      | None \<Rightarrow> conf ConfigKind)"

text \<open>
  The catalog a resolution works with: the catalog of the request if it has one, otherwise
  the default of the installation.
\<close>

definition effectiveCatalog :: "(string \<rightharpoonup> string) \<Rightarrow> Param list \<Rightarrow> string option" where
  "effectiveCatalog conf params =
     (case requested params ParamCatalog of
        Some v \<Rightarrow> Some (StringVal v)
      | None \<Rightarrow> conf ConfigCatalog)"

text \<open>The string a request gives to a name, the empty string if it gives none.\<close>

definition requestedString :: "Param list \<Rightarrow> string \<Rightarrow> string" where
  "requestedString params k = (case requested params k of Some v \<Rightarrow> StringVal v | None \<Rightarrow> [])"

text \<open>The URLs fetched in a list of events, in the order of the fetches.\<close>

fun fetched :: "event list \<Rightarrow> string list" where
  "fetched [] = []"
| "fetched (HttpGet url # es) = url # fetched es"
| "fetched (BodyReadAll # es) = fetched es"
| "fetched (BodyClose # es) = fetched es"

text \<open>What the merged parameter mapping of \<open>Resolve\<close> holds for a name, if \<open>Resolve\<close> gets that far.\<close>

definition merged :: "(string \<rightharpoonup> string) \<Rightarrow> Param list \<Rightarrow> string \<Rightarrow> string option" where
  "merged conf params k =
     (case Resolve_paramsMap conf params of Inl e \<Rightarrow> None | Inr paramsMap \<Rightarrow> paramsMap k)"




subsection \<open>Example requests, installations and worlds\<close>

definition strParam :: "string \<Rightarrow> string \<Rightarrow> Param" where
  "strParam n v = \<lparr>Name = n, Value = \<lparr>StringVal = v, ArrayVal = []\<rparr>\<rparr>"

definition tektonHub :: Resolver where
  "tektonHub = \<lparr>HubURL = ''https://api.hub.tekton.dev/v1/resource/%s/%s/%s/%s/yaml''\<rparr>"

definition gitClone :: "Param list" where
  "gitClone = [strParam ''name'' ''git-clone'', strParam ''version'' ''0.9'',
               strParam ''kind'' ''task'']"

definition nameVersion :: "Param list" where
  "nameVersion = [strParam ''name'' ''git-clone'', strParam ''version'' ''0.9'']"

definition buildah :: "Param list" where
  "buildah = [strParam ''name'' ''buildah'', strParam ''version'' ''0.5'',
              strParam ''kind'' ''step'']"

definition gitCloneMap :: "string \<rightharpoonup> string" where
  "gitCloneMap = [''name'' \<mapsto> ''git-clone'', ''version'' \<mapsto> ''0.9'', ''kind'' \<mapsto> ''task'',
                  ''catalog'' \<mapsto> ''Tekton'', ''kind'' \<mapsto> ''task'']"

definition enabled :: "(string \<rightharpoonup> string) \<Rightarrow> Context" where
  "enabled conf = \<lparr>EnableHubResolver = True, ResolverConfig = conf\<rparr>"

definition disabled :: "(string \<rightharpoonup> string) \<Rightarrow> Context" where
  "disabled conf = \<lparr>EnableHubResolver = False, ResolverConfig = conf\<rparr>"

definition tektonCatalog :: "string \<rightharpoonup> string" where
  "tektonCatalog = [ConfigCatalog \<mapsto> ''Tekton'']"

definition tektonTasks :: "string \<rightharpoonup> string" where
  "tektonTasks = [ConfigCatalog \<mapsto> ''Tekton'', ConfigKind \<mapsto> ''task'']"

definition stepDefault :: "string \<rightharpoonup> string" where
  "stepDefault = [ConfigCatalog \<mapsto> ''Tekton'', ConfigKind \<mapsto> ''step'']"

text \<open>The bodies of the examples, and the values their texts denote.\<close>

definition taskBody :: string where
  \<open>taskBody = ''{"data":{"yaml":"kind: Task'' @ [CHR 0x5C] @ ''nname: foo"}}''\<close>

definition taskYAML :: string where
  "taskYAML = ''kind: Task'' @ [CHR 0x0A] @ ''name: foo''"

definition noYAMLBody :: string where
  \<open>noYAMLBody = ''{"data":{}}''\<close>

definition htmlBody :: string where
  "htmlBody = ''<html>not found</html>''"

definition htmlSyntaxError :: string where
  "htmlSyntaxError =
     ''invalid character '' @ [CHR 0x27] @ ''<'' @ [CHR 0x27] @ '' looking for beginning of value''"

definition numberBody :: string where
  \<open>numberBody = ''{"data":{"yaml":5}}''\<close>

definition exampleScan :: "string \<Rightarrow> string + json" where
  "exampleScan text =
     (if text = taskBody then Inr (JObject [(''data'', JObject [(''yaml'', JString taskYAML)])])
      else if text = noYAMLBody then Inr (JObject [(''data'', JObject [])])
      else if text = numberBody then Inr (JObject [(''data'', JObject [(''yaml'', JNumber ''5'')])])
      else if text = htmlBody then Inl htmlSyntaxError
      else Inl ''unexpected end of JSON input'')"

text \<open>A hub that answers every request with the given status and body.\<close>

definition serving :: "int \<Rightarrow> string \<Rightarrow> World" where
  "serving status body =
     \<lparr>Get = (\<lambda>url. Inr \<lparr>StatusCode = status, Body = Inr body\<rparr>),
      Scan = exampleScan,
      SprintfOther = (\<lambda>format args. [])\<rparr>"

section \<open>Lemmas\<close>

subsection \<open>Collapsing the parameters\<close>

text \<open>
  The loop that fills \<open>paramsMap\<close> computes what the request asks for: the last
  parameter of a name wins, and a name is absent when no parameter has it.
\<close>

lemma paramsMap_requested:
  "foldl (\<lambda>m p. m(Name p \<mapsto> f (Value p))) m0 params k =
     (case requested params k of Some v \<Rightarrow> Some (f v) | None \<Rightarrow> m0 k)"
  by (induction params arbitrary: m0) (auto simp: requested_def map_add_def split: option.splits)

lemma paramsMap_Value:
  "foldl (\<lambda>m p. m(Name p \<mapsto> Value p)) Map.empty params k = requested params k"
  using paramsMap_requested [of "\<lambda>v. v" Map.empty params k]
  by (simp split: option.splits)

lemma paramsMap_StringVal:
  "foldl (\<lambda>m p. m(Name p \<mapsto> StringVal (Value p))) Map.empty params k =
     map_option StringVal (requested params k)"
  using paramsMap_requested [of StringVal Map.empty params k]
  by (simp split: option.splits)

lemma requested_None: "requested params k = None \<longleftrightarrow> k \<notin> Name ` set params"
  by (simp add: requested_def map_of_eq_None_iff image_image)

subsection \<open>The formatter on plain formats\<close>

lemma doPrintf_plain_byte:
  "c \<noteq> CHR ''%'' \<Longrightarrow> doPrintf (c # fmt) args = map_option ((#) c) (doPrintf fmt args)"
  by (cases fmt) simp_all

lemma doPrintf_plain_prefix:
  "CHR ''%'' \<notin> set t \<Longrightarrow> doPrintf (t @ fmt) args = map_option ((@) t) (doPrintf fmt args)"
proof (induction t)
  case Nil
  show ?case by (simp add: option.map_ident)
next
  case (Cons c t)
  then have "c \<noteq> CHR ''%''" and "CHR ''%'' \<notin> set t" by auto
  then show ?case
    using Cons.IH by (simp add: doPrintf_plain_byte option.map_comp comp_def)
qed

lemma doPrintf_slot:
  assumes "CHR ''%'' \<notin> set t"
  shows "doPrintf (t @ ''%s'' @ fmt) (a # as) = map_option (\<lambda>s. t @ a @ s) (doPrintf fmt as)"
  using assms by (simp add: doPrintf_plain_prefix option.map_comp comp_def)

lemma doPrintf_four_slots:
  assumes "CHR ''%'' \<notin> set (t0 @ t1 @ t2 @ t3 @ t4)"
  shows "doPrintf (t0 @ ''%s'' @ t1 @ ''%s'' @ t2 @ ''%s'' @ t3 @ ''%s'' @ t4) [a, b, c, d] =
           Some (t0 @ a @ t1 @ b @ t2 @ c @ t3 @ d @ t4)"
proof -
  have t: "CHR ''%'' \<notin> set t0" "CHR ''%'' \<notin> set t1" "CHR ''%'' \<notin> set t2"
    "CHR ''%'' \<notin> set t3" "CHR ''%'' \<notin> set t4"
    using assms by auto
  have last: "doPrintf t4 [] = Some t4"
    using doPrintf_plain_prefix [OF t(5), of "[]" "[]"] by (simp add: extra_def)
  show ?thesis
    unfolding doPrintf_slot [OF t(1)] doPrintf_slot [OF t(2)] doPrintf_slot [OF t(3)]
      doPrintf_slot [OF t(4)] last
    by simp
qed

lemma Sprintf_world: "Sprintf (W\<lparr>Get := g, Scan := s\<rparr>) = Sprintf W"
  by (rule ext)+ (simp add: Sprintf_def split: option.splits)

subsection \<open>The decoder\<close>















subsection \<open>The merged parameters\<close>

lemma Resolve_paramsMap_requested:
  "Resolve_paramsMap conf params =
     (let paramsMap = (\<lambda>k. map_option StringVal (requested params k)) in
      case (if requested params ParamCatalog = None
            then (case conf ConfigCatalog of
                    Some catalogString \<Rightarrow> Inr (paramsMap(ParamCatalog \<mapsto> catalogString))
                  | None \<Rightarrow>
                      Inl (MissingDefaultError
                        ''default catalog was not set during installation of the hub resolver''))
            else Inr paramsMap) of
        Inl e \<Rightarrow> Inl e
      | Inr paramsMap \<Rightarrow>
          (case effectiveKind conf params of
             None \<Rightarrow> Inl (MissingDefaultError
                            ''default resource Kind was not set during installation of the hub resolver'')
           | Some kind \<Rightarrow>
               if kind \<noteq> ''task'' \<and> kind \<noteq> ''pipeline''
               then Inl (InvalidParameterError ''kind param must be task or pipeline'')
               else Inr (paramsMap(ParamKind \<mapsto> kind))))"
proof -
  have m: "foldl (\<lambda>m p. m(Name p \<mapsto> StringVal (Value p))) Map.empty params =
             (\<lambda>k. map_option StringVal (requested params k))"
    by (rule ext) (simp add: paramsMap_StringVal)
  have ne: "ParamKind \<noteq> ParamCatalog"
    by (simp add: ParamKind_def ParamCatalog_def)
  show ?thesis
    unfolding Resolve_paramsMap_def m
    by (auto simp: Let_def effectiveKind_def ne split: option.splits)
qed

lemma Resolve_paramsMap_no_catalog:
  assumes "requested params ParamCatalog = None" and "conf ConfigCatalog = None"
  shows "Resolve_paramsMap conf params =
           Inl (MissingDefaultError
             ''default catalog was not set during installation of the hub resolver'')"
  using assms by (simp add: Resolve_paramsMap_requested)

lemma Resolve_paramsMap_kind:
  assumes "requested params ParamCatalog \<noteq> None \<or> conf ConfigCatalog \<noteq> None"
  shows "Resolve_paramsMap conf params =
           (case effectiveKind conf params of
              None \<Rightarrow> Inl (MissingDefaultError
                ''default resource Kind was not set during installation of the hub resolver'')
            | Some kind \<Rightarrow>
                if kind \<noteq> ''task'' \<and> kind \<noteq> ''pipeline''
                then Inl (InvalidParameterError ''kind param must be task or pipeline'')
                else Inr ((\<lambda>k. map_option StringVal (requested params k))
                            (ParamCatalog \<mapsto>
                               (case requested params ParamCatalog of
                                  Some v \<Rightarrow> StringVal v
                                | None \<Rightarrow> the (conf ConfigCatalog)),
                             ParamKind \<mapsto> kind)))"
proof -
  have same: "m(k \<mapsto> v) = m" if "m k = Some v" for m :: "string \<rightharpoonup> string" and k v
    using that by (rule map_upd_triv)
  show ?thesis
  proof (cases "requested params ParamCatalog")
    case None
    with assms obtain c where "conf ConfigCatalog = Some c" by auto
    with None show ?thesis
      by (simp add: Resolve_paramsMap_requested split: option.splits)
  next
    case (Some v)
    then have "(\<lambda>k. map_option StringVal (requested params k))(ParamCatalog \<mapsto> StringVal v) =
                 (\<lambda>k. map_option StringVal (requested params k))"
      by (intro same) simp
    with Some show ?thesis
      by (simp add: Resolve_paramsMap_requested split: option.splits)
  qed
qed

text \<open>
  The merged parameters in terms of the request and the installation, in both directions.
\<close>

lemma Resolve_paramsMap_values:
  assumes "effectiveCatalog conf params = Some c"
    and "effectiveKind conf params = Some k"
    and "k = ''task'' \<or> k = ''pipeline''"
  shows "\<exists>pm. Resolve_paramsMap conf params = Inr pm \<and>
              pm ParamCatalog = Some c \<and> pm ParamKind = Some k \<and>
              pm ParamName = map_option StringVal (requested params ParamName) \<and>
              pm ParamVersion = map_option StringVal (requested params ParamVersion)"
proof -
  have catalog: "requested params ParamCatalog \<noteq> None \<or> conf ConfigCatalog \<noteq> None"
    using assms(1) by (auto simp: effectiveCatalog_def split: option.splits)
  have c: "(case requested params ParamCatalog of
              Some v \<Rightarrow> StringVal v
            | None \<Rightarrow> the (conf ConfigCatalog)) = c"
    using assms(1) by (auto simp: effectiveCatalog_def split: option.splits)
  have ne: "ParamName \<noteq> ParamCatalog" "ParamName \<noteq> ParamKind" "ParamVersion \<noteq> ParamCatalog"
    "ParamVersion \<noteq> ParamKind" "ParamCatalog \<noteq> ParamKind"
    by (simp_all add: ParamName_def ParamVersion_def ParamKind_def ParamCatalog_def)
  show ?thesis
    unfolding Resolve_paramsMap_kind [where conf = conf and params = params, OF catalog]
    using assms(2,3) c ne by auto
qed

lemma Resolve_paramsMap_inputs:
  assumes "Resolve_paramsMap conf params = Inr pm"
  shows "effectiveCatalog conf params = pm ParamCatalog \<and>
         effectiveKind conf params = pm ParamKind \<and>
         (pm ParamKind = Some ''task'' \<or> pm ParamKind = Some ''pipeline'') \<and>
         pm ParamCatalog \<noteq> None \<and>
         pm ParamName = map_option StringVal (requested params ParamName) \<and>
         pm ParamVersion = map_option StringVal (requested params ParamVersion)"
proof -
  have catalog: "requested params ParamCatalog \<noteq> None \<or> conf ConfigCatalog \<noteq> None"
    using assms Resolve_paramsMap_no_catalog [of params conf] by auto
  have ne: "ParamName \<noteq> ParamCatalog" "ParamName \<noteq> ParamKind" "ParamVersion \<noteq> ParamCatalog"
    "ParamVersion \<noteq> ParamKind" "ParamCatalog \<noteq> ParamKind"
    by (simp_all add: ParamName_def ParamVersion_def ParamKind_def ParamCatalog_def)
  from assms show ?thesis
    unfolding Resolve_paramsMap_kind [where conf = conf and params = params, OF catalog]
    using catalog ne
    by (auto simp: effectiveCatalog_def split: option.splits if_splits)
qed

lemma index_requestedString:
  "pm k = map_option StringVal (requested params k) \<Longrightarrow> index pm k = requestedString params k"
  by (simp add: index_def requestedString_def split: option.splits)

lemma index_Some: "pm k = Some v \<Longrightarrow> index pm k = v"
  by (simp add: index_def)

subsection \<open>The paths of Resolve\<close>

lemma Resolve_gate:
  "\<not> EnableHubResolver ctx \<Longrightarrow>
     Resolve r W ctx params = (Inl (ConfigurationError disabledError), [])"
  by (simp add: Resolve_def isDisabled_def)

lemma Resolve_merge_error:
  "EnableHubResolver ctx \<Longrightarrow> Resolve_paramsMap (ResolverConfig ctx) params = Inl e \<Longrightarrow>
     Resolve r W ctx params = (Inl e, [])"
  by (simp add: Resolve_def isDisabled_def)

lemma Resolve_HttpGetD:
  assumes "HttpGet url \<in> set (snd (Resolve r W ctx params))"
  shows "EnableHubResolver ctx \<and>
         (\<exists>pm. Resolve_paramsMap (ResolverConfig ctx) params = Inr pm \<and>
           url = Sprintf W (HubURL r)
                   [index pm ParamCatalog, index pm ParamKind, index pm ParamName,
                    index pm ParamVersion])"
  using assms
  by (auto simp: Resolve_def isDisabled_def Let_def split: if_splits sum.splits)

lemma Resolve_fetch:
  assumes "EnableHubResolver ctx"
    and "Resolve_paramsMap (ResolverConfig ctx) params = Inr pm"
    and "url = Sprintf W (HubURL r)
                 [index pm ParamCatalog, index pm ParamKind, index pm ParamName,
                  index pm ParamVersion]"
  shows "Resolve r W ctx params =
           (case Get W url of
              Inl err \<Rightarrow> (Inl (FetchError err), [HttpGet url])
            | Inr resp \<Rightarrow>
                if StatusCode resp \<noteq> StatusOK then (Inl (NotFoundError url), [HttpGet url])
                else
                  (case Body resp of
                     Inl err \<Rightarrow> (Inl (ReadError err), [HttpGet url, BodyReadAll, BodyClose])
                   | Inr body \<Rightarrow>
                       (case Unmarshal W body \<lparr>Data = \<lparr>YAML = []\<rparr>\<rparr> of
                          Inl err \<Rightarrow>
                            (Inl (DecodeError err), [HttpGet url, BodyReadAll, BodyClose])
                        | Inr hr \<Rightarrow>
                            (Inr \<lparr>Content = YAML (Data hr)\<rparr>,
                             [HttpGet url, BodyReadAll, BodyClose]))))"
  using assms(1,2) unfolding assms(3) by (simp add: Resolve_def isDisabled_def Let_def)


text \<open>Past the flag and the merging of the defaults, exactly one URL is fetched.\<close>

lemma Resolve_fetched:
  assumes "EnableHubResolver ctx"
    and "Resolve_paramsMap (ResolverConfig ctx) params = Inr pm"
  shows "fetched (snd (Resolve r W ctx params)) =
           [Sprintf W (HubURL r)
              [index pm ParamCatalog, index pm ParamKind, index pm ParamName,
               index pm ParamVersion]]"
  unfolding Resolve_fetch [OF assms refl]
  by (simp split: sum.splits)

text \<open>
  A resolution that returns a resource has passed the flag, has a catalog and a kind, and
  has fetched the URL formatted from them with status 200 and a body that could be read.
\<close>

lemma Resolve_success_inputs:
  assumes "fst (Resolve r W ctx params) = Inr rr"
  shows "EnableHubResolver ctx \<and>
         (\<exists>c k resp body.
            effectiveCatalog (ResolverConfig ctx) params = Some c \<and>
            effectiveKind (ResolverConfig ctx) params = Some k \<and>
            (k = ''task'' \<or> k = ''pipeline'') \<and>
            Get W (Sprintf W (HubURL r)
                     [c, k, requestedString params ParamName,
                      requestedString params ParamVersion]) = Inr resp \<and>
            StatusCode resp = StatusOK \<and> Body resp = Inr body)"
proof -
  from assms have on: "EnableHubResolver ctx"
    by (auto simp: Resolve_def isDisabled_def split: if_splits)
  from assms obtain pm where pm: "Resolve_paramsMap (ResolverConfig ctx) params = Inr pm"
    by (auto simp: Resolve_def split: if_splits sum.splits)
  note inputs = Resolve_paramsMap_inputs [OF pm]
  from inputs obtain c k where c: "pm ParamCatalog = Some c" and k: "pm ParamKind = Some k"
    and valid: "k = ''task'' \<or> k = ''pipeline''"
    by auto
  have idx: "index pm ParamCatalog = c" "index pm ParamKind = k"
    "index pm ParamName = requestedString params ParamName"
    "index pm ParamVersion = requestedString params ParamVersion"
    using c k inputs by (simp_all add: index_Some index_requestedString)
  let ?url = "Sprintf W (HubURL r)
                [c, k, requestedString params ParamName, requestedString params ParamVersion]"
  have run: "Resolve r W ctx params =
           (case Get W ?url of
              Inl err \<Rightarrow> (Inl (FetchError err), [HttpGet ?url])
            | Inr resp \<Rightarrow>
                if StatusCode resp \<noteq> StatusOK then (Inl (NotFoundError ?url), [HttpGet ?url])
                else
                  (case Body resp of
                     Inl err \<Rightarrow> (Inl (ReadError err), [HttpGet ?url, BodyReadAll, BodyClose])
                   | Inr body \<Rightarrow>
                       (case Unmarshal W body \<lparr>Data = \<lparr>YAML = []\<rparr>\<rparr> of
                          Inl err \<Rightarrow>
                            (Inl (DecodeError err), [HttpGet ?url, BodyReadAll, BodyClose])
                        | Inr hr \<Rightarrow>
                            (Inr \<lparr>Content = YAML (Data hr)\<rparr>,
                             [HttpGet ?url, BodyReadAll, BodyClose]))))"
    using Resolve_fetch [OF on pm refl, of r W] by (simp only: idx)
  from assms have "\<exists>resp body. Get W ?url = Inr resp \<and> StatusCode resp = StatusOK \<and>
                     Body resp = Inr body"
    unfolding run by (auto split: sum.splits if_splits)
  then show ?thesis
    using on c k valid inputs by auto
qed

text \<open>The methods of the resource are the three, and what they return determines the resource.\<close>

lemma accessor_cases: "m = DataAccessor \<or> m = AnnotationsAccessor \<or> m = SourceAccessor"
  by (cases m) simp_all

lemma call_determines:
  assumes "\<forall>m. ResolvedHubResource_call a m = ResolvedHubResource_call b m"
  shows "a = b"
proof -
  from assms have "ResolvedHubResource_call a DataAccessor = ResolvedHubResource_call b DataAccessor"
    by blast
  then have "Content a = Content b"
    by (simp add: ResolvedHubResource_Data_def)
  then show ?thesis
    by simp
qed

text \<open>After a fetch that gave a response, the body is closed exactly when the status is 200.\<close>

lemma Resolve_closes:
  assumes "HttpGet url \<in> set (snd (Resolve r W ctx params))"
    and "Get W url = Inr resp"
  shows "BodyClose \<in> set (snd (Resolve r W ctx params)) \<longleftrightarrow> StatusCode resp = StatusOK"
proof -
  from Resolve_HttpGetD [OF assms(1)] obtain pm where
    "EnableHubResolver ctx" "Resolve_paramsMap (ResolverConfig ctx) params = Inr pm"
    "url = Sprintf W (HubURL r)
             [index pm ParamCatalog, index pm ParamKind, index pm ParamName,
              index pm ParamVersion]"
    by blast
  from Resolve_fetch [OF this] show ?thesis
    using assms(2) by (simp split: sum.splits)
qed

subsection \<open>The examples, evaluated\<close>

lemmas name_defs =
  ParamName_def ParamVersion_def ParamKind_def ParamCatalog_def ConfigCatalog_def ConfigKind_def

lemmas run_defs =
  Resolve_def isDisabled_def Resolve_paramsMap_def enabled_def disabled_def tektonCatalog_def
  tektonTasks_def gitClone_def strParam_def name_defs tektonHub_def Sprintf_def extra_def
  index_def serving_def StatusOK_def Unmarshal_def exampleScan_def taskBody_def noYAMLBody_def
  numberBody_def htmlBody_def equalFold_def caseMask_def saveError_def Let_def

lemma run_task:
  "Resolve tektonHub (serving 200 taskBody) (enabled tektonCatalog) gitClone =
     (Inr \<lparr>Content = taskYAML\<rparr>,
      [HttpGet ''https://api.hub.tekton.dev/v1/resource/Tekton/task/git-clone/0.9/yaml'',
       BodyReadAll, BodyClose])"
  by (simp add: run_defs)




lemma run_not_found:
  "Resolve tektonHub (serving 404 htmlBody) (enabled tektonCatalog) gitClone =
     (Inl (NotFoundError ''https://api.hub.tekton.dev/v1/resource/Tekton/task/git-clone/0.9/yaml''),
      [HttpGet ''https://api.hub.tekton.dev/v1/resource/Tekton/task/git-clone/0.9/yaml''])"
  by (simp add: run_defs)

lemma run_no_name:
  "Resolve tektonHub (serving 200 taskBody) (enabled tektonTasks) [] =
     (Inr \<lparr>Content = taskYAML\<rparr>,
      [HttpGet ''https://api.hub.tekton.dev/v1/resource/Tekton/task///yaml'',
       BodyReadAll, BodyClose])"
  by (simp add: run_defs)

lemma trace_task:
  "HttpGet ''https://api.hub.tekton.dev/v1/resource/Tekton/task/git-clone/0.9/yaml''
     \<in> set (snd (Resolve tektonHub (serving 200 taskBody) (enabled tektonCatalog) gitClone))"
  by (simp add: run_task)



lemma trace_not_found:
  "HttpGet ''https://api.hub.tekton.dev/v1/resource/Tekton/task/git-clone/0.9/yaml''
     \<in> set (snd (Resolve tektonHub (serving 404 htmlBody) (enabled tektonCatalog) gitClone))"
  by (simp add: run_not_found)

lemma merged_gitClone:
  "Resolve_paramsMap tektonCatalog gitClone =
     Inr [''name'' \<mapsto> ''git-clone'', ''version'' \<mapsto> ''0.9'', ''kind'' \<mapsto> ''task'',
          ''catalog'' \<mapsto> ''Tekton'', ''kind'' \<mapsto> ''task'']"
  by (simp add: run_defs)

lemma merged_gitCloneMap: "Resolve_paramsMap (ResolverConfig (enabled tektonCatalog)) gitClone = Inr gitCloneMap"
  by (simp add: merged_gitClone gitCloneMap_def enabled_def)

lemma index_gitCloneMap:
  "index gitCloneMap ParamCatalog = ''Tekton''" "index gitCloneMap ParamKind = ''task''"
  "index gitCloneMap ParamName = ''git-clone''" "index gitCloneMap ParamVersion = ''0.9''"
  by (simp_all add: index_def gitCloneMap_def name_defs)

lemma requested_gitClone:
  "requested gitClone ParamName = Some \<lparr>StringVal = ''git-clone'', ArrayVal = []\<rparr>"
  "requested gitClone ParamVersion = Some \<lparr>StringVal = ''0.9'', ArrayVal = []\<rparr>"
  "requested gitClone ParamKind = Some \<lparr>StringVal = ''task'', ArrayVal = []\<rparr>"
  "requested gitClone ParamCatalog = None"
  by (simp_all add: requested_def gitClone_def strParam_def name_defs)

lemma requested_buildah:
  "requested buildah ParamName = Some \<lparr>StringVal = ''buildah'', ArrayVal = []\<rparr>"
  "requested buildah ParamVersion = Some \<lparr>StringVal = ''0.5'', ArrayVal = []\<rparr>"
  "requested buildah ParamKind = Some \<lparr>StringVal = ''step'', ArrayVal = []\<rparr>"
  "requested buildah ParamCatalog = None"
  by (simp_all add: requested_def buildah_def strParam_def name_defs)

lemma requested_nameVersion:
  "requested nameVersion ParamKind = None" "requested nameVersion ParamCatalog = None"
  by (simp_all add: requested_def nameVersion_def strParam_def name_defs)

lemma validate_gitClone: "ValidateParams tektonHub (enabled tektonCatalog) gitClone = None"
  by (simp add: ValidateParams_def isDisabled_def enabled_def paramsMap_Value
      requested_gitClone)

lemma effective_gitClone:
  "effectiveCatalog tektonCatalog gitClone = Some ''Tekton''"
  "effectiveKind tektonCatalog gitClone = Some ''task''"
  "requestedString gitClone ParamName = ''git-clone''"
  "requestedString gitClone ParamVersion = ''0.9''"
  unfolding effectiveCatalog_def effectiveKind_def requestedString_def requested_gitClone
  by (simp_all add: tektonCatalog_def)

lemma gitCloneMap_values:
  "gitCloneMap ParamCatalog = Some ''Tekton''" "gitCloneMap ParamKind = Some ''task''"
  "gitCloneMap ParamName = Some ''git-clone''" "gitCloneMap ParamVersion = Some ''0.9''"
  by (simp_all add: gitCloneMap_def name_defs)

lemma Sprintf_gitClone:
  "Sprintf (serving 200 taskBody) (HubURL tektonHub) [''Tekton'', ''task'', ''git-clone'', ''0.9''] =
     ''https://api.hub.tekton.dev/v1/resource/Tekton/task/git-clone/0.9/yaml''"
  by (simp add: Sprintf_def tektonHub_def extra_def)

section \<open>The claims\<close>

subsection \<open>The feature flag\<close>

text \<open>
  Claim C10. If the feature flag of the hub resolver is false in the context, then for
  every resolver, parameter list, installation configuration and world both
  \<open>ValidateParams\<close> and \<open>Resolve\<close> fail with the error of the disabled feature (the
  specification's ConfigurationError), and \<open>Resolve\<close> has no event: no network call is
  made.
\<close>

theorem feature_disabled:
  assumes "\<not> EnableHubResolver ctx"
  shows "ValidateParams r ctx params = Some (ConfigurationError disabledError) \<and>
         Resolve r W ctx params = (Inl (ConfigurationError disabledError), [])"
  using assms by (simp add: ValidateParams_def Resolve_def isDisabled_def)

text \<open>
  The request of the specification's example is valid when the flag is on, and is turned
  down by both operations when the flag is off.
\<close>

theorem feature_disabled_witness:
  "\<not> EnableHubResolver (disabled tektonCatalog) \<and>
   ValidateParams tektonHub (enabled tektonCatalog) gitClone = None \<and>
   ValidateParams tektonHub (disabled tektonCatalog) gitClone =
     Some (ConfigurationError disabledError) \<and>
   Resolve tektonHub (serving 200 taskBody) (disabled tektonCatalog) gitClone =
     (Inl (ConfigurationError disabledError), [])"
proof -
  have off: "\<not> EnableHubResolver (disabled tektonCatalog)"
    by (simp add: disabled_def)
  show ?thesis
    using off validate_gitClone
      feature_disabled [OF off, of tektonHub gitClone "serving 200 taskBody"]
    by simp
qed

subsection \<open>Missing name or version\<close>

text \<open>
  Claim C9, amended. For every parameter list in which, after the parameters of the same
  name have collapsed to the last one, the name or the version is absent, \<open>ValidateParams\<close>
  fails, whatever the other parameters are. When the feature flag is on, the error is a
  MissingParameterError: its message asks for the name if the name is absent, and for the
  version otherwise. When the flag is off, the error is the one of the disabled feature.
\<close>

theorem ValidateParams_missing:
  assumes "requested params ParamName = None \<or> requested params ParamVersion = None"
  shows "ValidateParams r ctx params =
           Some (if EnableHubResolver ctx
                 then MissingParameterError
                        (if requested params ParamName = None then ''must include name param''
                         else ''must include version param'')
                 else ConfigurationError disabledError)"
  using assms
  by (auto simp: ValidateParams_def isDisabled_def paramsMap_Value)

text \<open>A request with a name and a kind, without a version.\<close>

theorem ValidateParams_missing_witness:
  "requested [strParam ''name'' ''git-clone'', strParam ''kind'' ''task''] ParamVersion = None \<and>
   ValidateParams tektonHub (enabled tektonCatalog)
       [strParam ''name'' ''git-clone'', strParam ''kind'' ''task''] =
     Some (MissingParameterError ''must include version param'')"
proof -
  have on: "EnableHubResolver (enabled tektonCatalog)"
    by (simp add: enabled_def)
  have name:
    "requested [strParam ''name'' ''git-clone'', strParam ''kind'' ''task''] ParamName \<noteq> None"
    by (simp add: requested_def strParam_def name_defs)
  have version:
    "requested [strParam ''name'' ''git-clone'', strParam ''kind'' ''task''] ParamVersion = None"
    by (simp add: requested_def strParam_def name_defs)
  show ?thesis
    using on name version
      ValidateParams_missing [OF disjI2, OF version, of tektonHub "enabled tektonCatalog"]
    by simp
qed

text \<open>
  The claim as it was written does not hold with the flag off: a request without a name is
  then answered with the error of the disabled feature, which line 69 returns before the
  parameters are looked at.
\<close>

theorem ValidateParams_disabled_counterexample:
  "requested [strParam ''kind'' ''task''] ParamName = None \<and>
   ValidateParams tektonHub (disabled tektonCatalog) [strParam ''kind'' ''task''] =
     Some (ConfigurationError disabledError)"
  by (simp add: ValidateParams_def isDisabled_def disabled_def requested_def strParam_def
      name_defs)

subsection \<open>A kind that is neither task nor pipeline\<close>

text \<open>
  Claim C8, amended. If the effective kind of a request (the kind of the request if it has
  one, otherwise the default of the installation) is neither \<open>task\<close> nor \<open>pipeline\<close>,
  \<open>Resolve\<close> fails and makes no network call, also when the kind comes from the
  installation. The error is the InvalidParameterError when the feature flag is on and a
  catalog is given by the request or by the installation; it is the MissingDefaultError of
  the catalog when the flag is on and there is no catalog; it is the error of the disabled
  feature when the flag is off. Likewise, if the kind of the request is neither \<open>task\<close>
  nor \<open>pipeline\<close>, \<open>ValidateParams\<close> fails. The error is the InvalidParameterError
  when the flag is on and the request has a name and a version; it is the
  MissingParameterError of the name or of the version when the flag is on and one of them
  is absent; it is the error of the disabled feature when the flag is off.
\<close>

theorem invalid_kind:
  "(effectiveKind (ResolverConfig ctx) params = Some kind \<and>
      kind \<noteq> ''task'' \<and> kind \<noteq> ''pipeline''
    \<longrightarrow> Resolve r W ctx params =
          (Inl (if \<not> EnableHubResolver ctx then ConfigurationError disabledError
                else if requested params ParamCatalog = None \<and>
                        ResolverConfig ctx ConfigCatalog = None
                  then MissingDefaultError
                         ''default catalog was not set during installation of the hub resolver''
                else InvalidParameterError ''kind param must be task or pipeline''), [])) \<and>
   (requested params ParamKind = Some v \<and>
      StringVal v \<noteq> ''task'' \<and> StringVal v \<noteq> ''pipeline''
    \<longrightarrow> ValidateParams r ctx params =
          Some (if \<not> EnableHubResolver ctx then ConfigurationError disabledError
                else if requested params ParamName = None
                  then MissingParameterError ''must include name param''
                else if requested params ParamVersion = None
                  then MissingParameterError ''must include version param''
                else InvalidParameterError ''kind param must be task or pipeline''))"
proof (intro conjI impI)
  assume a: "effectiveKind (ResolverConfig ctx) params = Some kind \<and>
             kind \<noteq> ''task'' \<and> kind \<noteq> ''pipeline''"
  let ?conf = "ResolverConfig ctx"
  let ?result = "if \<not> EnableHubResolver ctx then ConfigurationError disabledError
                 else if requested params ParamCatalog = None \<and> ?conf ConfigCatalog = None
                   then MissingDefaultError
                          ''default catalog was not set during installation of the hub resolver''
                 else InvalidParameterError ''kind param must be task or pipeline''"
  show "Resolve r W ctx params = (Inl ?result, [])"
  proof (cases "EnableHubResolver ctx")
    case False
    then show ?thesis
      by (simp add: Resolve_gate)
  next
    case on: True
    show ?thesis
    proof (cases "requested params ParamCatalog = None \<and> ?conf ConfigCatalog = None")
      case True
      then have "Resolve_paramsMap ?conf params =
                   Inl (MissingDefaultError
                     ''default catalog was not set during installation of the hub resolver'')"
        by (simp add: Resolve_paramsMap_no_catalog)
      from Resolve_merge_error [OF on this] show ?thesis
        using on True by simp
    next
      case False
      then have "requested params ParamCatalog \<noteq> None \<or> ?conf ConfigCatalog \<noteq> None"
        by simp
      then have "Resolve_paramsMap ?conf params =
                   Inl (InvalidParameterError ''kind param must be task or pipeline'')"
        using a by (simp add: Resolve_paramsMap_kind)
      from Resolve_merge_error [OF on this] show ?thesis
        using on False by simp
    qed
  qed
next
  assume "requested params ParamKind = Some v \<and>
          StringVal v \<noteq> ''task'' \<and> StringVal v \<noteq> ''pipeline''"
  then show "ValidateParams r ctx params =
          Some (if \<not> EnableHubResolver ctx then ConfigurationError disabledError
                else if requested params ParamName = None
                  then MissingParameterError ''must include name param''
                else if requested params ParamVersion = None
                  then MissingParameterError ''must include version param''
                else InvalidParameterError ''kind param must be task or pipeline'')"
    by (auto simp: ValidateParams_def isDisabled_def paramsMap_Value)
qed

text \<open>
  An installation whose default kind is \<open>step\<close>, with a request that leaves the kind
  out, and a request that asks for the kind \<open>step\<close> itself.
\<close>

theorem invalid_kind_witness:
  "effectiveKind stepDefault nameVersion = Some ''step'' \<and>
   Resolve tektonHub (serving 200 taskBody) (enabled stepDefault) nameVersion =
     (Inl (InvalidParameterError ''kind param must be task or pipeline''), []) \<and>
   requested buildah ParamKind = Some \<lparr>StringVal = ''step'', ArrayVal = []\<rparr> \<and>
   ValidateParams tektonHub (enabled stepDefault) buildah =
     Some (InvalidParameterError ''kind param must be task or pipeline'')"
proof -
  have on: "EnableHubResolver (enabled stepDefault)"
    by (simp add: enabled_def)
  have conf: "ResolverConfig (enabled stepDefault) = stepDefault"
    by (simp add: enabled_def)
  have kind: "effectiveKind stepDefault nameVersion = Some ''step''"
    unfolding effectiveKind_def requested_nameVersion
    by (simp add: stepDefault_def name_defs)
  have catalog: "stepDefault ConfigCatalog \<noteq> None"
    by (simp add: stepDefault_def name_defs)
  show ?thesis
    using on kind catalog requested_buildah
      invalid_kind [of "enabled stepDefault" nameVersion "''step''" tektonHub
        "serving 200 taskBody"]
      invalid_kind [of "enabled stepDefault" buildah _ tektonHub _
        "\<lparr>StringVal = ''step'', ArrayVal = []\<rparr>"]
    by (simp add: conf)
qed

text \<open>
  The claim as it was written does not hold where an earlier check fails: with no catalog
  at all \<open>Resolve\<close> reports the missing default before it looks at the kind, and
  \<open>ValidateParams\<close> reports the missing name before it looks at the kind.
\<close>

theorem invalid_kind_counterexample:
  "effectiveKind Map.empty buildah = Some ''step'' \<and>
   Resolve tektonHub (serving 200 taskBody) (enabled Map.empty) buildah =
     (Inl (MissingDefaultError
        ''default catalog was not set during installation of the hub resolver''), []) \<and>
   requested [strParam ''kind'' ''step''] ParamKind = Some \<lparr>StringVal = ''step'', ArrayVal = []\<rparr> \<and>
   ValidateParams tektonHub (enabled Map.empty) [strParam ''kind'' ''step''] =
     Some (MissingParameterError ''must include name param'')"
  by (simp add: run_defs buildah_def effectiveKind_def requested_def ValidateParams_def)

subsection \<open>Missing defaults\<close>

text \<open>
  Claim C7, amended. If the request has no catalog and the installation has no default
  catalog, \<open>Resolve\<close> fails and makes no network call: when the feature flag is on the
  error is the MissingDefaultError whose message speaks of the default catalog, when the
  flag is off it is the error of the disabled feature. If the request has no kind and the
  installation has no default kind, \<open>Resolve\<close> fails and makes no network call: when
  the flag is on and a catalog is given by the request or by the installation, the error
  is the MissingDefaultError whose message speaks of the default resource Kind; when the
  flag is on and there is no catalog either, it is the MissingDefaultError of the catalog;
  when the flag is off it is the error of the disabled feature.
\<close>

theorem missing_default:
  "(requested params ParamCatalog = None \<and> ResolverConfig ctx ConfigCatalog = None
    \<longrightarrow> Resolve r W ctx params =
          (Inl (if EnableHubResolver ctx
                then MissingDefaultError
                       ''default catalog was not set during installation of the hub resolver''
                else ConfigurationError disabledError), [])) \<and>
   (requested params ParamKind = None \<and> ResolverConfig ctx ConfigKind = None
    \<longrightarrow> Resolve r W ctx params =
          (Inl (if \<not> EnableHubResolver ctx then ConfigurationError disabledError
                else if requested params ParamCatalog = None \<and>
                        ResolverConfig ctx ConfigCatalog = None
                  then MissingDefaultError
                         ''default catalog was not set during installation of the hub resolver''
                else MissingDefaultError
                       ''default resource Kind was not set during installation of the hub resolver''),
           []))"
proof -
  let ?conf = "ResolverConfig ctx"
  have no_catalog:
    "Resolve r W ctx params =
       (Inl (MissingDefaultError
          ''default catalog was not set during installation of the hub resolver''), [])"
    if "EnableHubResolver ctx" and "requested params ParamCatalog = None \<and> ?conf ConfigCatalog = None"
  proof -
    have "Resolve_paramsMap ?conf params =
            Inl (MissingDefaultError
              ''default catalog was not set during installation of the hub resolver'')"
      using that(2) by (simp add: Resolve_paramsMap_no_catalog)
    from Resolve_merge_error [OF that(1) this] show ?thesis .
  qed
  have no_kind:
    "Resolve r W ctx params =
       (Inl (MissingDefaultError
          ''default resource Kind was not set during installation of the hub resolver''), [])"
    if "EnableHubResolver ctx" and "requested params ParamKind = None \<and> ?conf ConfigKind = None"
      and "\<not> (requested params ParamCatalog = None \<and> ?conf ConfigCatalog = None)"
  proof -
    have "effectiveKind ?conf params = None"
      using that(2) by (simp add: effectiveKind_def)
    moreover have "requested params ParamCatalog \<noteq> None \<or> ?conf ConfigCatalog \<noteq> None"
      using that(3) by simp
    ultimately have "Resolve_paramsMap ?conf params =
            Inl (MissingDefaultError
              ''default resource Kind was not set during installation of the hub resolver'')"
      by (simp add: Resolve_paramsMap_kind)
    from Resolve_merge_error [OF that(1) this] show ?thesis .
  qed
  show ?thesis
    using no_catalog no_kind by (simp add: Resolve_gate)
qed

text \<open>
  A request with a name and a version only: with an empty installation configuration the
  default catalog is missed, with the catalog \<open>Tekton\<close> as the only default the default
  kind is missed.
\<close>

theorem missing_default_witness:
  "requested nameVersion ParamCatalog = None \<and> requested nameVersion ParamKind = None \<and>
   Resolve tektonHub (serving 200 taskBody) (enabled Map.empty) nameVersion =
     (Inl (MissingDefaultError
        ''default catalog was not set during installation of the hub resolver''), []) \<and>
   Resolve tektonHub (serving 200 taskBody) (enabled tektonCatalog) nameVersion =
     (Inl (MissingDefaultError
        ''default resource Kind was not set during installation of the hub resolver''), [])"
proof -
  have on: "EnableHubResolver (enabled Map.empty)" "EnableHubResolver (enabled tektonCatalog)"
    by (simp_all add: enabled_def)
  have conf: "ResolverConfig (enabled Map.empty) = Map.empty"
    "ResolverConfig (enabled tektonCatalog) = tektonCatalog"
    by (simp_all add: enabled_def)
  have defaults: "tektonCatalog ConfigCatalog \<noteq> None" "tektonCatalog ConfigKind = None"
    by (simp_all add: tektonCatalog_def name_defs)
  show ?thesis
    using on requested_nameVersion defaults
      missing_default [of nameVersion "enabled Map.empty" tektonHub "serving 200 taskBody"]
      missing_default [of nameVersion "enabled tektonCatalog" tektonHub "serving 200 taskBody"]
    by (simp add: conf)
qed

text \<open>
  The claim as it was written does not hold with the flag off, where the error is the one
  of the disabled feature; and where both the kind and the catalog are missing, the error
  speaks of the catalog, which is looked up first, and not of the kind.
\<close>

theorem missing_default_counterexample:
  "requested nameVersion ParamCatalog = None \<and> requested nameVersion ParamKind = None \<and>
   Resolve tektonHub (serving 200 taskBody) (disabled Map.empty) nameVersion =
     (Inl (ConfigurationError disabledError), []) \<and>
   Resolve tektonHub (serving 200 taskBody) (enabled Map.empty) nameVersion =
     (Inl (MissingDefaultError
        ''default catalog was not set during installation of the hub resolver''), [])"
  by (simp add: run_defs nameVersion_def requested_def)

subsection \<open>The merged parameters of a successful resolution\<close>

text \<open>
  Claim C1, amended. Whenever \<open>Resolve\<close> returns a resource, the merged parameter
  mapping holds a kind, which is \<open>task\<close> or \<open>pipeline\<close> (so it is not empty) and is the
  effective kind of the request, and it holds a catalog: the one of the request if there is
  one, otherwise the default of the installation. For the name and the version the mapping
  holds what the request gives and nothing else: \<open>Resolve\<close> does not check that they
  are present or not empty, and does not check that the catalog is not empty.
\<close>

theorem merged_on_success:
  assumes "fst (Resolve r W ctx params) = Inr rr"
  shows "\<exists>kind.
           merged (ResolverConfig ctx) params ParamKind = Some kind \<and>
           (kind = ''task'' \<or> kind = ''pipeline'') \<and> kind \<noteq> [] \<and>
           effectiveKind (ResolverConfig ctx) params = Some kind \<and>
           merged (ResolverConfig ctx) params ParamCatalog \<noteq> None \<and>
           merged (ResolverConfig ctx) params ParamCatalog =
             (case requested params ParamCatalog of
                Some v \<Rightarrow> Some (StringVal v)
              | None \<Rightarrow> ResolverConfig ctx ConfigCatalog) \<and>
           merged (ResolverConfig ctx) params ParamName =
             map_option StringVal (requested params ParamName) \<and>
           merged (ResolverConfig ctx) params ParamVersion =
             map_option StringVal (requested params ParamVersion)"
proof -
  let ?conf = "ResolverConfig ctx"
  from assms obtain pm where pm: "Resolve_paramsMap ?conf params = Inr pm"
    by (auto simp: Resolve_def split: if_splits sum.splits)
  have catalog: "requested params ParamCatalog \<noteq> None \<or> ?conf ConfigCatalog \<noteq> None"
    using pm Resolve_paramsMap_no_catalog [of params ?conf] by auto
  have ne: "ParamName \<noteq> ParamCatalog" "ParamName \<noteq> ParamKind" "ParamVersion \<noteq> ParamCatalog"
    "ParamVersion \<noteq> ParamKind" "ParamCatalog \<noteq> ParamKind"
    by (simp_all add: name_defs)
  from pm show ?thesis
    unfolding merged_def Resolve_paramsMap_kind [where conf = ?conf and params = params, OF catalog]
    using catalog ne by (auto split: option.splits if_splits)
qed

theorem merged_on_success_witness:
  "fst (Resolve tektonHub (serving 200 taskBody) (enabled tektonCatalog) gitClone) =
     Inr \<lparr>Content = taskYAML\<rparr> \<and>
   merged tektonCatalog gitClone ParamKind = Some ''task'' \<and>
   merged tektonCatalog gitClone ParamCatalog = Some ''Tekton'' \<and>
   merged tektonCatalog gitClone ParamName = Some ''git-clone'' \<and>
   merged tektonCatalog gitClone ParamVersion = Some ''0.9''"
proof -
  have ok: "fst (Resolve tektonHub (serving 200 taskBody) (enabled tektonCatalog) gitClone) =
              Inr \<lparr>Content = taskYAML\<rparr>"
    by (simp add: run_task)
  have conf: "ResolverConfig (enabled tektonCatalog) = tektonCatalog"
    by (simp add: enabled_def)
  have default: "tektonCatalog ConfigCatalog = Some ''Tekton''"
    by (simp add: tektonCatalog_def)
  have kind: "effectiveKind tektonCatalog gitClone = Some ''task''"
    by (simp add: effectiveKind_def requested_gitClone)
  show ?thesis
    using ok merged_on_success [OF ok] kind default
    by (auto simp: conf requested_gitClone)
qed

text \<open>
  The claim as it was written does not hold: for a request with no parameters at all and
  an installation with both defaults, \<open>Resolve\<close> goes on to the URL, with the empty
  string in the place of the name and of the version, fetches it and returns the resource.
\<close>

theorem no_name_counterexample:
  "requested [] ParamName = None \<and> requested [] ParamVersion = None \<and>
   Resolve tektonHub (serving 200 taskBody) (enabled tektonTasks) [] =
     (Inr \<lparr>Content = taskYAML\<rparr>,
      [HttpGet ''https://api.hub.tekton.dev/v1/resource/Tekton/task///yaml'',
       BodyReadAll, BodyClose]) \<and>
   merged tektonTasks [] ParamName = None \<and>
   merged tektonTasks [] ParamVersion = None"
  by (simp add: run_no_name) (simp add: merged_def requested_def run_defs)

subsection \<open>The URL\<close>

text \<open>
  Claim C5. Let the merged parameter mapping of a request be fully populated: it gives
  the catalog \<open>c\<close>, the kind \<open>k\<close>, the name \<open>n\<close> and the version \<open>v\<close>. With the
  feature flag on, \<open>Resolve\<close> fetches exactly one URL, the URL template of the resolver
  formatted by \<open>fmt.Sprintf\<close> with the four operands \<open>c\<close>, \<open>k\<close>, \<open>n\<close>, \<open>v\<close> in
  this order (with the flag off it fetches none). For a template with four \<open>%s\<close> and
  no other percent sign, this URL is the template with the first \<open>%s\<close> replaced by
  \<open>c\<close>, the second by \<open>k\<close>, the third by \<open>n\<close> and the fourth by \<open>v\<close>, byte for
  byte: nothing is escaped or encoded. The four values are those of the request: the
  catalog and the kind of the request or else of the installation, the name and the
  version of the request.
\<close>

theorem url_positional:
  assumes "Resolve_paramsMap (ResolverConfig ctx) params = Inr pm"
    and "pm ParamCatalog = Some c"
    and "pm ParamKind = Some k"
    and "pm ParamName = Some n"
    and "pm ParamVersion = Some v"
  shows "fetched (snd (Resolve r W ctx params)) =
           (if EnableHubResolver ctx then [Sprintf W (HubURL r) [c, k, n, v]] else []) \<and>
         (\<forall>t0 t1 t2 t3 t4.
            HubURL r = t0 @ ''%s'' @ t1 @ ''%s'' @ t2 @ ''%s'' @ t3 @ ''%s'' @ t4 \<and>
            CHR ''%'' \<notin> set (t0 @ t1 @ t2 @ t3 @ t4) \<longrightarrow>
            Sprintf W (HubURL r) [c, k, n, v] = t0 @ c @ t1 @ k @ t2 @ n @ t3 @ v @ t4) \<and>
         effectiveCatalog (ResolverConfig ctx) params = Some c \<and>
         effectiveKind (ResolverConfig ctx) params = Some k \<and>
         map_option StringVal (requested params ParamName) = Some n \<and>
         map_option StringVal (requested params ParamVersion) = Some v"
proof (intro conjI allI impI)
  have idx: "index pm ParamCatalog = c" "index pm ParamKind = k" "index pm ParamName = n"
    "index pm ParamVersion = v"
    using assms(2-5) by (simp_all add: index_Some)
  show "fetched (snd (Resolve r W ctx params)) =
          (if EnableHubResolver ctx then [Sprintf W (HubURL r) [c, k, n, v]] else [])"
  proof (cases "EnableHubResolver ctx")
    case True
    from Resolve_fetched [OF True assms(1), of r W] show ?thesis
      using True by (simp add: idx)
  next
    case False
    then show ?thesis
      by (simp add: Resolve_gate)
  qed
next
  fix t0 t1 t2 t3 t4
  assume "HubURL r = t0 @ ''%s'' @ t1 @ ''%s'' @ t2 @ ''%s'' @ t3 @ ''%s'' @ t4 \<and>
          CHR ''%'' \<notin> set (t0 @ t1 @ t2 @ t3 @ t4)"
  then show "Sprintf W (HubURL r) [c, k, n, v] = t0 @ c @ t1 @ k @ t2 @ n @ t3 @ v @ t4"
    using doPrintf_four_slots [of t0 t1 t2 t3 t4]
    by (simp add: Sprintf_def)
next
  show "effectiveCatalog (ResolverConfig ctx) params = Some c"
    using Resolve_paramsMap_inputs [OF assms(1)] assms(2) by simp
next
  show "effectiveKind (ResolverConfig ctx) params = Some k"
    using Resolve_paramsMap_inputs [OF assms(1)] assms(3) by simp
next
  show "map_option StringVal (requested params ParamName) = Some n"
    using Resolve_paramsMap_inputs [OF assms(1)] assms(4) by simp
next
  show "map_option StringVal (requested params ParamVersion) = Some v"
    using Resolve_paramsMap_inputs [OF assms(1)] assms(5) by simp
qed

text \<open>
  The example of the specification: name \<open>git-clone\<close>, version \<open>0.9\<close>, kind
  \<open>task\<close>, and the catalog \<open>Tekton\<close> from the installation.
\<close>

theorem url_positional_witness:
  "Resolve_paramsMap (ResolverConfig (enabled tektonCatalog)) gitClone = Inr gitCloneMap \<and>
   gitCloneMap ParamCatalog = Some ''Tekton'' \<and> gitCloneMap ParamKind = Some ''task'' \<and>
   gitCloneMap ParamName = Some ''git-clone'' \<and> gitCloneMap ParamVersion = Some ''0.9'' \<and>
   EnableHubResolver (enabled tektonCatalog) \<and>
   HubURL tektonHub =
     ''https://api.hub.tekton.dev/v1/resource/'' @ ''%s'' @ ''/'' @ ''%s'' @ ''/'' @ ''%s''
       @ ''/'' @ ''%s'' @ ''/yaml'' \<and>
   fetched (snd (Resolve tektonHub (serving 200 taskBody) (enabled tektonCatalog) gitClone)) =
     [''https://api.hub.tekton.dev/v1/resource/'' @ ''Tekton'' @ ''/'' @ ''task'' @ ''/''
        @ ''git-clone'' @ ''/'' @ ''0.9'' @ ''/yaml'']"
proof -
  have on: "EnableHubResolver (enabled tektonCatalog)"
    by (simp add: enabled_def)
  have template: "HubURL tektonHub =
     ''https://api.hub.tekton.dev/v1/resource/'' @ ''%s'' @ ''/'' @ ''%s'' @ ''/'' @ ''%s''
       @ ''/'' @ ''%s'' @ ''/yaml''"
    by (simp add: tektonHub_def)
  have plain: "CHR ''%'' \<notin> set (''https://api.hub.tekton.dev/v1/resource/'' @ ''/'' @ ''/'' @ ''/'' @ ''/yaml'')"
    by simp
  note pos = url_positional [OF merged_gitCloneMap gitCloneMap_values, of tektonHub
      "serving 200 taskBody"]
  have filled:
    "Sprintf (serving 200 taskBody) (HubURL tektonHub) [''Tekton'', ''task'', ''git-clone'', ''0.9''] =
     ''https://api.hub.tekton.dev/v1/resource/'' @ ''Tekton'' @ ''/'' @ ''task'' @ ''/''
        @ ''git-clone'' @ ''/'' @ ''0.9'' @ ''/yaml''"
    using pos [THEN conjunct2, THEN conjunct1, rule_format,
        of "''https://api.hub.tekton.dev/v1/resource/''" "''/''" "''/''" "''/''" "''/yaml''"]
      template plain
    by blast
  have "fetched (snd (Resolve tektonHub (serving 200 taskBody) (enabled tektonCatalog) gitClone)) =
          [Sprintf (serving 200 taskBody) (HubURL tektonHub)
             [''Tekton'', ''task'', ''git-clone'', ''0.9'']]"
    using pos [THEN conjunct1] on by simp
  then show ?thesis
    using on template merged_gitCloneMap gitCloneMap_values unfolding filled by blast
qed

subsection \<open>A status code other than 200\<close>

text \<open>
  Claim C6. Whenever \<open>Resolve\<close> fetches a URL, the fetch gives a response and the
  status code of the response is not 200, \<open>Resolve\<close> fails with the NotFoundError of
  this URL, whose message contains the URL between quotes. The fetch is the only event:
  the body is not read. The result does not depend on the body nor on the JSON scanner:
  with any other body in the response and any other scanner it is the same.
\<close>

theorem not_found:
  assumes "HttpGet url \<in> set (snd (Resolve r W ctx params))"
    and "Get W url = Inr resp"
    and "StatusCode resp \<noteq> StatusOK"
  shows "Resolve r W ctx params = (Inl (NotFoundError url), [HttpGet url]) \<and>
         Error (NotFoundError url) =
           ''requested resource '' @ [CHR 0x27] @ url @ [CHR 0x27] @ '' not found on hub'' \<and>
         (\<forall>body scan.
            Resolve r (W\<lparr>Get := (Get W)(url := Inr (resp\<lparr>Body := body\<rparr>)), Scan := scan\<rparr>)
                ctx params =
              (Inl (NotFoundError url), [HttpGet url]))"
proof -
  from Resolve_HttpGetD [OF assms(1)] obtain pm where
    on: "EnableHubResolver ctx"
    and pm: "Resolve_paramsMap (ResolverConfig ctx) params = Inr pm"
    and url: "url = Sprintf W (HubURL r)
                      [index pm ParamCatalog, index pm ParamKind, index pm ParamName,
                       index pm ParamVersion]"
    by blast
  have here: "Resolve r W ctx params = (Inl (NotFoundError url), [HttpGet url])"
    using Resolve_fetch [OF on pm url] assms(2,3) by simp
  have there: "Resolve r (W\<lparr>Get := (Get W)(url := Inr (resp\<lparr>Body := body\<rparr>)), Scan := scan\<rparr>)
                 ctx params = (Inl (NotFoundError url), [HttpGet url])" for body scan
  proof -
    let ?W = "W\<lparr>Get := (Get W)(url := Inr (resp\<lparr>Body := body\<rparr>)), Scan := scan\<rparr>"
    have "url = Sprintf ?W (HubURL r)
                  [index pm ParamCatalog, index pm ParamKind, index pm ParamName,
                   index pm ParamVersion]"
      using url by (simp add: Sprintf_world)
    from Resolve_fetch [OF on pm this] show ?thesis
      using assms(3) by simp
  qed
  show ?thesis
    using here there by simp
qed

theorem not_found_witness:
  "HttpGet ''https://api.hub.tekton.dev/v1/resource/Tekton/task/git-clone/0.9/yaml''
     \<in> set (snd (Resolve tektonHub (serving 404 htmlBody) (enabled tektonCatalog) gitClone)) \<and>
   Get (serving 404 htmlBody)
       ''https://api.hub.tekton.dev/v1/resource/Tekton/task/git-clone/0.9/yaml'' =
     Inr \<lparr>StatusCode = 404, Body = Inr htmlBody\<rparr> \<and>
   (404 :: int) \<noteq> StatusOK \<and>
   fst (Resolve tektonHub (serving 404 htmlBody) (enabled tektonCatalog) gitClone) =
     Inl (NotFoundError ''https://api.hub.tekton.dev/v1/resource/Tekton/task/git-clone/0.9/yaml'') \<and>
   Error (NotFoundError ''https://api.hub.tekton.dev/v1/resource/Tekton/task/git-clone/0.9/yaml'') =
     ''requested resource '' @ [CHR 0x27] @
       ''https://api.hub.tekton.dev/v1/resource/Tekton/task/git-clone/0.9/yaml'' @ [CHR 0x27] @
       '' not found on hub''"
proof -
  have get: "Get (serving 404 htmlBody)
               ''https://api.hub.tekton.dev/v1/resource/Tekton/task/git-clone/0.9/yaml'' =
             Inr \<lparr>StatusCode = 404, Body = Inr htmlBody\<rparr>"
    by (simp add: serving_def)
  have status: "StatusCode \<lparr>StatusCode = 404, Body = Inr htmlBody\<rparr> \<noteq> StatusOK"
    by (simp add: StatusOK_def)
  show ?thesis
    using get status not_found [OF trace_not_found get status]
    by simp
qed

subsection \<open>Closing the body\<close>

text \<open>
  Claim C3 says that the body of the response is closed on every path of \<open>Resolve\<close>
  after a fetch that gave a response, the path of a status code other than 200 included.
  The code defers the closing of the body at line 140, after the return of line 138: on a
  response with status 404 \<open>Resolve\<close> returns the NotFoundError and the body has not
  been closed. (On the paths through line 140 it is closed, see \<open>Resolve_closes\<close>.)
\<close>

theorem body_left_open:
  "Resolve tektonHub (serving 404 htmlBody) (enabled tektonCatalog) gitClone =
     (Inl (NotFoundError ''https://api.hub.tekton.dev/v1/resource/Tekton/task/git-clone/0.9/yaml''),
      [HttpGet ''https://api.hub.tekton.dev/v1/resource/Tekton/task/git-clone/0.9/yaml'']) \<and>
   BodyClose \<notin> set (snd (Resolve tektonHub (serving 404 htmlBody) (enabled tektonCatalog) gitClone))"
  by (simp add: run_not_found)

subsection \<open>Bodies that are not the envelope\<close>




subsection \<open>The resolved resource\<close>

text \<open>
  Claim C4. Let the feature flag be on, let the request and the installation give a
  catalog and a kind that is \<open>task\<close> or \<open>pipeline\<close>, and let the hub answer the URL
  formatted from them (with the name and the version of the request) with status 200 and a
  body that is read as the JSON object \<open>{"data":{"yaml": s}}\<close>. Then \<open>Resolve\<close>
  fetches this URL, reads and closes the body, and returns a resource whose \<open>Data\<close> is
  exactly \<open>s\<close>, whose \<open>Annotations\<close> is nil and whose \<open>Source\<close> is nil. These are
  the only capabilities of the resource: every method of its method set is one of the
  three, and a resource on which the three return the same is the same resource, so it
  holds nothing that they do not give. Every resolution that returns a resource is of
  this kind as far as the request, the installation and the response go
  (\<open>Resolve_success_inputs\<close>).
\<close>

theorem content_is_yaml:
  assumes "EnableHubResolver ctx"
    and "effectiveCatalog (ResolverConfig ctx) params = Some c"
    and "effectiveKind (ResolverConfig ctx) params = Some k"
    and "k = ''task'' \<or> k = ''pipeline''"
    and "url = Sprintf W (HubURL r)
                 [c, k, requestedString params ParamName, requestedString params ParamVersion]"
    and "Get W url = Inr resp"
    and "StatusCode resp = StatusOK"
    and "Body resp = Inr body"
    and "Scan W body = Inr (JObject [(''data'', JObject [(''yaml'', JString s)])])"
  shows "\<exists>rr. Resolve r W ctx params = (Inr rr, [HttpGet url, BodyReadAll, BodyClose]) \<and>
              ResolvedHubResource_Data rr = s \<and>
              ResolvedHubResource_Annotations rr = None \<and>
              ResolvedHubResource_Source rr = None \<and>
              (\<forall>m. m = DataAccessor \<or> m = AnnotationsAccessor \<or> m = SourceAccessor) \<and>
              (\<forall>rr'. (\<forall>m. ResolvedHubResource_call rr' m = ResolvedHubResource_call rr m)
                       \<longrightarrow> rr' = rr)"
proof -
  from Resolve_paramsMap_values [OF assms(2-4)] obtain pm where
    pm: "Resolve_paramsMap (ResolverConfig ctx) params = Inr pm"
    and vals: "pm ParamCatalog = Some c" "pm ParamKind = Some k"
      "pm ParamName = map_option StringVal (requested params ParamName)"
      "pm ParamVersion = map_option StringVal (requested params ParamVersion)"
    by blast
  have url: "url = Sprintf W (HubURL r)
                     [index pm ParamCatalog, index pm ParamKind, index pm ParamName,
                      index pm ParamVersion]"
    using assms(5) vals by (simp add: index_Some index_requestedString)
  have decoded: "Unmarshal W body \<lparr>Data = \<lparr>YAML = []\<rparr>\<rparr> = Inr \<lparr>Data = \<lparr>YAML = s\<rparr>\<rparr>"
    using assms(9) by (simp add: Unmarshal_def)
  have "Resolve r W ctx params =
          (Inr \<lparr>Content = s\<rparr>, [HttpGet url, BodyReadAll, BodyClose])"
    using Resolve_fetch [OF assms(1) pm url] assms(6-8) decoded by simp
  then show ?thesis
    using accessor_cases call_determines
    by (auto simp: ResolvedHubResource_Data_def ResolvedHubResource_Annotations_def
        ResolvedHubResource_Source_def)
qed

text \<open>
  The example of the specification: the content is \<open>kind: Task\<close>, a line feed,
  \<open>name: foo\<close>; the two other methods return nil.
\<close>

theorem content_is_yaml_witness:
  "EnableHubResolver (enabled tektonCatalog) \<and>
   effectiveCatalog tektonCatalog gitClone = Some ''Tekton'' \<and>
   effectiveKind tektonCatalog gitClone = Some ''task'' \<and>
   Get (serving 200 taskBody)
       ''https://api.hub.tekton.dev/v1/resource/Tekton/task/git-clone/0.9/yaml'' =
     Inr \<lparr>StatusCode = StatusOK, Body = Inr taskBody\<rparr> \<and>
   Scan (serving 200 taskBody) taskBody =
     Inr (JObject [(''data'', JObject [(''yaml'', JString taskYAML)])]) \<and>
   Resolve tektonHub (serving 200 taskBody) (enabled tektonCatalog) gitClone =
     (Inr \<lparr>Content = ''kind: Task'' @ [CHR 0x0A] @ ''name: foo''\<rparr>,
      [HttpGet ''https://api.hub.tekton.dev/v1/resource/Tekton/task/git-clone/0.9/yaml'',
       BodyReadAll, BodyClose]) \<and>
   ResolvedHubResource_call \<lparr>Content = ''kind: Task'' @ [CHR 0x0A] @ ''name: foo''\<rparr> DataAccessor =
     Bytes (''kind: Task'' @ [CHR 0x0A] @ ''name: foo'') \<and>
   ResolvedHubResource_call \<lparr>Content = ''kind: Task'' @ [CHR 0x0A] @ ''name: foo''\<rparr>
       AnnotationsAccessor = AnnotationMap None \<and>
   ResolvedHubResource_call \<lparr>Content = ''kind: Task'' @ [CHR 0x0A] @ ''name: foo''\<rparr>
       SourceAccessor = SourcePointer None"
proof -
  let ?url = "''https://api.hub.tekton.dev/v1/resource/Tekton/task/git-clone/0.9/yaml''"
  have on: "EnableHubResolver (enabled tektonCatalog)"
    by (simp add: enabled_def)
  have conf: "ResolverConfig (enabled tektonCatalog) = tektonCatalog"
    by (simp add: enabled_def)
  have catalog: "effectiveCatalog (ResolverConfig (enabled tektonCatalog)) gitClone = Some ''Tekton''"
    and kind: "effectiveKind (ResolverConfig (enabled tektonCatalog)) gitClone = Some ''task''"
    by (simp_all add: conf effective_gitClone)
  have url: "?url = Sprintf (serving 200 taskBody) (HubURL tektonHub)
                      [''Tekton'', ''task'', requestedString gitClone ParamName,
                       requestedString gitClone ParamVersion]"
    by (simp only: effective_gitClone Sprintf_gitClone)
  have get: "Get (serving 200 taskBody) ?url = Inr \<lparr>StatusCode = StatusOK, Body = Inr taskBody\<rparr>"
    by (simp add: serving_def StatusOK_def)
  have scan: "Scan (serving 200 taskBody) taskBody =
                Inr (JObject [(''data'', JObject [(''yaml'', JString taskYAML)])])"
    by (simp add: serving_def exampleScan_def)
  from content_is_yaml [OF on catalog kind disjI1 url get _ _ scan]
  obtain rr where run: "Resolve tektonHub (serving 200 taskBody) (enabled tektonCatalog) gitClone =
                          (Inr rr, [HttpGet ?url, BodyReadAll, BodyClose])"
    and data: "ResolvedHubResource_Data rr = taskYAML"
    and nil: "ResolvedHubResource_Annotations rr = None" "ResolvedHubResource_Source rr = None"
    by auto
  from data have rr: "rr = \<lparr>Content = ''kind: Task'' @ [CHR 0x0A] @ ''name: foo''\<rparr>"
    by (cases rr) (simp add: ResolvedHubResource_Data_def taskYAML_def)
  show ?thesis
    using on run [unfolded rr] get scan effective_gitClone(1,2)
    by (simp add: ResolvedHubResource_Data_def ResolvedHubResource_Annotations_def
        ResolvedHubResource_Source_def)
qed

end
